theory Spec2Isabelle
  imports Main
begin

section \<open>Values and the object store\<close>

text \<open>
  The playground builds plain JavaScript objects and hands them on by reference.
  Several properties of the builder are about object identity (the snapshot holds
  \<^emph>\<open>the\<close> array and \<^emph>\<open>the\<close> input it was given; two snapshots are different
  objects), so objects live in an explicit store and a value is either a primitive
  or a reference into it. Numbers are integers here: no property below does
  arithmetic on them.
\<close>

type_synonym addr = nat

datatype val =
    Undefined
  | Null
  | Bool bool
  | Num int
  | BigInt int
  | Str string
  | Ref addr

text \<open>
  An object is its list of own properties in insertion order, with no key twice;
  an array is its list of elements.
\<close>

datatype obj =
    Object "(string \<times> val) list"
  | Array "val list"

text \<open>The store: the address of an object is its position; allocation appends.\<close>

type_synonym heap = "obj list"

definition alloc :: "heap \<Rightarrow> obj \<Rightarrow> addr \<times> heap" where
  "alloc h ob = (length h, h @ [ob])"

text \<open>Assignment to a property of a list of own properties: replace in place, or append.\<close>

fun assign :: "string \<Rightarrow> val \<Rightarrow> (string \<times> val) list \<Rightarrow> (string \<times> val) list" where
  "assign k v [] = [(k, v)]"
| "assign k v ((k', v') # fs) = (if k = k' then (k, v) # fs else (k', v') # assign k v fs)"

text \<open>\<^verbatim>\<open>o.k = v\<close> on the object at address \<open>a\<close>.\<close>

definition set_prop :: "heap \<Rightarrow> addr \<Rightarrow> string \<Rightarrow> val \<Rightarrow> heap" where
  "set_prop h a k v =
     (if a < length h then
        (case h ! a of
           Object fs \<Rightarrow> h[a := Object (assign k v fs)]
         | Array xs \<Rightarrow> h)
      else h)"

text \<open>\<^verbatim>\<open>k in o\<close> for an own property, and \<^verbatim>\<open>o.k\<close> (\<^verbatim>\<open>undefined\<close> when absent).\<close>

definition has_prop :: "heap \<Rightarrow> val \<Rightarrow> string \<Rightarrow> bool" where
  "has_prop h v k =
     (case v of
        Ref a \<Rightarrow>
          (if a < length h then
             (case h ! a of Object fs \<Rightarrow> map_of fs k \<noteq> None | Array xs \<Rightarrow> False)
           else False)
      | _ \<Rightarrow> False)"

definition get_prop :: "heap \<Rightarrow> val \<Rightarrow> string \<Rightarrow> val" where
  "get_prop h v k =
     (case v of
        Ref a \<Rightarrow>
          (if a < length h then
             (case h ! a of
                Object fs \<Rightarrow> (case map_of fs k of None \<Rightarrow> Undefined | Some x \<Rightarrow> x)
              | Array xs \<Rightarrow> Undefined)
           else Undefined)
      | _ \<Rightarrow> Undefined)"

text \<open>
  Structural (deep) equality of two values, to a given depth of references: primitives
  are compared as they are, an object with itself is equal, two objects are equal when
  they have the same own keys with equal values, two arrays when they have equal
  elements. Stores may be cyclic, so the depth is explicit; two values are deep-equal
  when they are equal to every depth.
\<close>

primrec deep_equal :: "nat \<Rightarrow> heap \<Rightarrow> val \<Rightarrow> val \<Rightarrow> bool" where
  "deep_equal 0 h v w =
     (case (v, w) of (Ref a, Ref b) \<Rightarrow> True | _ \<Rightarrow> v = w)"
| "deep_equal (Suc n) h v w =
     (case (v, w) of
        (Ref a, Ref b) \<Rightarrow>
          a = b \<or>
          (a < length h \<and> b < length h \<and>
           (case (h ! a, h ! b) of
              (Object fs, Object gs) \<Rightarrow>
                set (map fst fs) = set (map fst gs) \<and>
                list_all (\<lambda>k. case (map_of fs k, map_of gs k) of
                                (Some x, Some y) \<Rightarrow> deep_equal n h x y
                              | _ \<Rightarrow> False) (map fst fs)
            | (Array xs, Array ys) \<Rightarrow> list_all2 (deep_equal n h) xs ys
            | _ \<Rightarrow> False))
      | _ \<Rightarrow> v = w)"

section \<open>Output references\<close>

text \<open>
  \<^verbatim>\<open>export function ref(path: string): OutputRef { return { $ref: path }; }\<close>

  The function has one statement: it allocates the object literal and returns it. There
  is no check of the path and no \<^verbatim>\<open>throw\<close>, so the model has no error branch.
\<close>

definition ref :: "string \<Rightarrow> heap \<Rightarrow> val \<times> heap" where
  "ref path h = (case alloc h (Object [(''$ref'', Str path)]) of (a, h') \<Rightarrow> (Ref a, h'))"

section \<open>The procedure-reference builder\<close>

text \<open>
  \<^verbatim>\<open>proc(path)\<close> closes over \<^verbatim>\<open>path\<close> and three local variables, \<^verbatim>\<open>_input\<close>,
  \<^verbatim>\<open>_name\<close> and \<^verbatim>\<open>_when\<close>; the builder's methods assign them and return the builder
  itself. The closure's variables are the record below (\<open>v_\<close> for a variable; an
  identifier cannot start with an underscore), and a method returns the record after
  its assignment. \<^verbatim>\<open>_name\<close> and \<^verbatim>\<open>_when\<close> have type \<^verbatim>\<open>string | undefined\<close>:
  \<open>None\<close> is \<^verbatim>\<open>undefined\<close>.
\<close>

record ProcBuilder =
  v_path :: val
  v_input :: val
  v_name :: "string option"
  v_when :: "string option"

text \<open>\<^verbatim>\<open>let _input: unknown = {}\<close> allocates a new empty object.\<close>

definition proc :: "val \<Rightarrow> heap \<Rightarrow> ProcBuilder \<times> heap" where
  "proc path h =
     (case alloc h (Object []) of
        (a, h') \<Rightarrow> (\<lparr>v_path = path, v_input = Ref a, v_name = None, v_when = None\<rparr>, h'))"

definition ProcBuilder_input :: "ProcBuilder \<Rightarrow> val \<Rightarrow> ProcBuilder" where
  "ProcBuilder_input builder input = builder\<lparr>v_input := input\<rparr>"

definition ProcBuilder_name :: "ProcBuilder \<Rightarrow> string \<Rightarrow> ProcBuilder" where
  "ProcBuilder_name builder name = builder\<lparr>v_name := Some name\<rparr>"

definition ProcBuilder_when :: "ProcBuilder \<Rightarrow> string \<Rightarrow> ProcBuilder" where
  "ProcBuilder_when builder when' = builder\<lparr>v_when := Some when'\<rparr>"

text \<open>
  The test \<^verbatim>\<open>if (_name)\<close> on a \<^verbatim>\<open>string | undefined\<close>: \<^verbatim>\<open>undefined\<close> and the empty
  string are falsy, every other string is truthy.
\<close>

definition truthy :: "string option \<Rightarrow> bool" where
  "truthy s = (case s of None \<Rightarrow> False | Some x \<Rightarrow> x \<noteq> [])"

text \<open>
  The getter \<^verbatim>\<open>ref\<close>: a new object with \<^verbatim>\<open>$proc\<close> and \<^verbatim>\<open>input\<close>, then
  \<^verbatim>\<open>$name\<close> and \<^verbatim>\<open>$when\<close> assigned when the variable is truthy. \<open>to_val\<close> reads
  a \<^verbatim>\<open>string | undefined\<close> variable as a value.
\<close>

definition to_val :: "string option \<Rightarrow> val" where
  "to_val s = (case s of None \<Rightarrow> Undefined | Some x \<Rightarrow> Str x)"

definition ProcBuilder_ref :: "ProcBuilder \<Rightarrow> heap \<Rightarrow> val \<times> heap" where
  "ProcBuilder_ref builder h =
     (case alloc h (Object [(''$proc'', v_path builder), (''input'', v_input builder)]) of
        (result, h1) \<Rightarrow>
          let h2 = (if truthy (v_name builder)
                    then set_prop h1 result ''$name'' (to_val (v_name builder)) else h1);
              h3 = (if truthy (v_when builder)
                    then set_prop h2 result ''$when'' (to_val (v_when builder)) else h2)
          in (Ref result, h3))"

text \<open>
  Reading a property of the snapshot, \<^verbatim>\<open>builder.ref.k\<close> and \<^verbatim>\<open>k in builder.ref\<close>:
  the getter runs, then the property is read in the store it leaves.
\<close>

definition ref_prop :: "ProcBuilder \<Rightarrow> heap \<Rightarrow> string \<Rightarrow> val" where
  "ref_prop builder h k = (case ProcBuilder_ref builder h of (s, h') \<Rightarrow> get_prop h' s k)"

definition ref_has :: "ProcBuilder \<Rightarrow> heap \<Rightarrow> string \<Rightarrow> bool" where
  "ref_has builder h k = (case ProcBuilder_ref builder h of (s, h') \<Rightarrow> has_prop h' s k)"

text \<open>The own properties of a snapshot, in insertion order.\<close>

definition ref_fields :: "ProcBuilder \<Rightarrow> (string \<times> val) list" where
  "ref_fields b =
     [(''$proc'', v_path b), (''input'', v_input b)]
     @ (if truthy (v_name b) then [(''$name'', to_val (v_name b))] else [])
     @ (if truthy (v_when b) then [(''$when'', to_val (v_when b))] else [])"

text \<open>A store with one path array, for the concrete instances below.\<close>

definition example_heap :: heap where
  "example_heap = [Array [Str ''git'', Str ''hasChanges'']]"

section \<open>The registry-to-transport adapter\<close>

text \<open>
  \<^verbatim>\<open>run\<close> imports \<^verbatim>\<open>Client\<close>, \<^verbatim>\<open>LocalTransport\<close> and \<^verbatim>\<open>PROCEDURE_REGISTRY\<close> from
  the package \<^verbatim>\<open>@mark1russell7/client\<close>. That package is not part of this repository:
  the registry and the client's \<^verbatim>\<open>exec\<close> are parameters of the model, and the transport
  is the list of the registrations it has received.

  A thrown value is an \<^verbatim>\<open>Error\<close> with its message, a \<^verbatim>\<open>TypeError\<close> of the runtime, or
  any other value. An awaited promise settles to an \<open>outcome\<close>: \<open>Inl\<close> the rejection,
  \<open>Inr\<close> the value.
\<close>

datatype error = Error string | TypeError string | Thrown val

type_synonym ProcedurePath = "string list"

type_synonym outcome = "error + val"

text \<open>
  The object literal \<^verbatim>\<open>context\<close> of the transport method: \<^verbatim>\<open>metadata: {}\<close> (an object
  with no own property), \<^verbatim>\<open>path: procedure.path\<close>, and \<^verbatim>\<open>client.call\<close>, which is the
  function \<open>call\<close> below. \<open>ident\<close> is the address at which the literal is allocated:
  two evaluations of the literal give two objects even when their fields agree. The
  object is an ordinary mutable one, not frozen: the record is what the object at
  \<open>ident\<close> holds at one moment, and a run carries it along as its state.
\<close>

record call_context =
  ident :: addr
  metadata :: "(string \<times> val) list"
  path :: ProcedurePath

text \<open>
  A handler is a function of its input and the call context. What it computes is its own
  business; towards the adapter it can return a value, throw, await
  \<^verbatim>\<open>context.client.call(p, i)\<close> and go on with what that call settled to (a handler may
  catch the rejection), read the context object again, and assign to it: leave the
  metadata with other own properties (an assignment such as
  \<^verbatim>\<open>context.metadata.user = 1\<close>, a \<^verbatim>\<open>delete\<close>, or another object put in its place),
  or assign \<^verbatim>\<open>context.path\<close>. A handler's run is therefore a tree of these steps; the
  context it is applied to is the object as it is at the application.
  \<^verbatim>\<open>client.call\<close> refers to the variable \<^verbatim>\<open>context\<close> and to the registry, not to a
  property of the object, so no assignment changes what a nested call does.
\<close>

datatype comp =
    Return val
  | Throw error
  | Nested ProcedurePath val "outcome \<Rightarrow> comp"
  | Observe "call_context \<Rightarrow> comp"
  | SetMetadata "(string \<times> val) list" comp
  | SetPath ProcedurePath comp

record procedure =
  path :: ProcedurePath
  handler :: "(val \<Rightarrow> call_context \<Rightarrow> comp) option"

text \<open>The registry's two operations: list every entry, look one up by path.\<close>

record registry =
  getAll :: "procedure list"
  get :: "ProcedurePath \<Rightarrow> procedure option"

text \<open>
  One application of a handler: the procedure it belongs to and its two arguments, the
  context as the object and what it holds when the handler is applied.
\<close>

record invocation =
  inv_procedure :: procedure
  inv_input :: val
  inv_context :: call_context

text \<open>\<^verbatim>\<open>Array.prototype.join\<close> on an array of strings.\<close>

fun join :: "string \<Rightarrow> string list \<Rightarrow> string" where
  "join sep [] = []"
| "join sep [x] = x"
| "join sep (x # y # ys) = x @ sep @ join sep (y # ys)"

text \<open>
  Running a handler. Handlers may call each other without end, so the run is bounded by
  fuel; the result is the list of handler applications made, in order, what the run
  settled to (\<open>None\<close> when the fuel ran out first), and the context object as the run
  leaves it.

  \<^item> \<open>run_handler\<close> follows the handler's tree; a nested call is awaited before the
    handler goes on, and the handler goes on with the context as the nested call left
    it.
  \<^item> \<open>call\<close> is \<^verbatim>\<open>context.client.call\<close>:
    \<^verbatim>\<open>const proc = PROCEDURE_REGISTRY.get(p);
    if (!proc?.handler) { throw new Error(`Procedure not found: ${p.join(".")}`); }
    return proc.handler(i, context);\<close>
    where \<^verbatim>\<open>context\<close> is the context the closure was created in.
  \<^item> \<open>invoke\<close> is the application \<^verbatim>\<open>handler(input, context)\<close>.
\<close>

function run_handler ::
    "nat \<Rightarrow> registry \<Rightarrow> call_context \<Rightarrow> comp
       \<Rightarrow> invocation list \<times> outcome option \<times> call_context"
  and call ::
    "nat \<Rightarrow> registry \<Rightarrow> call_context \<Rightarrow> ProcedurePath \<Rightarrow> val
       \<Rightarrow> invocation list \<times> outcome option \<times> call_context"
  and invoke ::
    "nat \<Rightarrow> registry \<Rightarrow> call_context \<Rightarrow> procedure \<Rightarrow> (val \<Rightarrow> call_context \<Rightarrow> comp) \<Rightarrow> val
       \<Rightarrow> invocation list \<times> outcome option \<times> call_context"
where
  "run_handler 0 reg context c = ([], None, context)"
| "run_handler (Suc n) reg context (Return v) = ([], Some (Inr v), context)"
| "run_handler (Suc n) reg context (Throw e) = ([], Some (Inl e), context)"
| "run_handler (Suc n) reg context (Nested p i k) =
     (case call n reg context p i of
        (t1, None, context1) \<Rightarrow> (t1, None, context1)
      | (t1, Some r, context1) \<Rightarrow>
          (case run_handler n reg context1 (k r) of
             (t2, r2, context2) \<Rightarrow> (t1 @ t2, r2, context2)))"
| "run_handler (Suc n) reg context (Observe k) = run_handler n reg context (k context)"
| "run_handler (Suc n) reg context (SetMetadata fs c) =
     run_handler n reg (context\<lparr>metadata := fs\<rparr>) c"
| "run_handler (Suc n) reg context (SetPath p c) =
     run_handler n reg (context\<lparr>call_context.path := p\<rparr>) c"
| "call n reg context p i =
     (case get reg p of
        None \<Rightarrow> ([], Some (Inl (Error (''Procedure not found: '' @ join ''.'' p))), context)
      | Some proc' \<Rightarrow>
          (case handler proc' of
             None \<Rightarrow>
               ([], Some (Inl (Error (''Procedure not found: '' @ join ''.'' p))), context)
           | Some h \<Rightarrow> invoke n reg context proc' h i))"
| "invoke n reg context proc' h i =
     (case run_handler n reg context (h i context) of
        (t, r) \<Rightarrow> (\<lparr>inv_procedure = proc', inv_input = i, inv_context = context\<rparr> # t, r))"
  by pat_completeness auto
termination
  by (relation "measure (\<lambda>x. case x of
                   Inl (n, _) \<Rightarrow> 3 * n
                 | Inr (Inl (n, _)) \<Rightarrow> 3 * n + 2
                 | Inr (Inr (n, _)) \<Rightarrow> 3 * n + 1)") auto



text \<open>
  The identity of a transport method, \<^verbatim>\<open>{ service, operation }\<close>. The destructuring
  \<^verbatim>\<open>const [service, ...rest] = procedure.path\<close> leaves \<^verbatim>\<open>service\<close> undefined on an
  empty path (\<open>None\<close>).
\<close>

record transport_method =
  service :: "string option"
  operation :: string

definition method_of :: "procedure \<Rightarrow> transport_method" where
  "method_of procedure =
     (case path procedure of
        [] \<Rightarrow> \<lparr>service = None, operation = join ''.'' []\<rparr>
      | first # rest \<Rightarrow> \<lparr>service = Some first, operation = join ''.'' rest\<rparr>)"

text \<open>
  What the transport holds for a method: the function \<^verbatim>\<open>async (payload) => ...\<close>.
  Besides the payload it is given the fuel of the run and the address of the context it
  allocates; besides what its promise settles to, it yields the applications made and
  the context as the run leaves it.
\<close>

type_synonym transport_handler =
  "nat \<Rightarrow> addr \<Rightarrow> val \<Rightarrow> invocation list \<times> outcome option \<times> call_context"

type_synonym transport = "(transport_method \<times> transport_handler) list"

definition register :: "transport \<Rightarrow> transport_method \<Rightarrow> transport_handler \<Rightarrow> transport" where
  "register t m f = t @ [(m, f)]"

text \<open>
  The function registered for \<^verbatim>\<open>procedure\<close>: build the context, then
  \<^verbatim>\<open>return procedure.handler!(payload, context)\<close>. The \<^verbatim>\<open>!\<close> is a type assertion only;
  applying an undefined handler is the runtime's \<^verbatim>\<open>TypeError\<close>.
\<close>

definition method_handler :: "registry \<Rightarrow> procedure \<Rightarrow> transport_handler" where
  "method_handler reg procedure n a payload =
     (let context = \<lparr>ident = a, metadata = [], call_context.path = path procedure\<rparr> in
      case handler procedure of
        Some h \<Rightarrow> invoke n reg context procedure h payload
      | None \<Rightarrow> ([], Some (Inl (TypeError ''procedure.handler is not a function'')), context))"

text \<open>
  The loop \<^verbatim>\<open>for (const procedure of PROCEDURE_REGISTRY.getAll())\<close> with its test
  \<^verbatim>\<open>if (procedure.handler)\<close>.
\<close>

fun sync :: "registry \<Rightarrow> procedure list \<Rightarrow> transport \<Rightarrow> transport" where
  "sync reg [] transport = transport"
| "sync reg (procedure # ps) transport =
     sync reg ps
       (case handler procedure of
          Some h \<Rightarrow> register transport (method_of procedure) (method_handler reg procedure)
        | None \<Rightarrow> transport)"

section \<open>The execution driver\<close>

datatype format = Json | Text

text \<open>\<^verbatim>\<open>RunOptions\<close>: both properties are optional, \<open>None\<close> is an absent property.\<close>

record RunOptions =
  print :: "bool option"
  format :: "format option"

text \<open>
  The imported module: the registry, and \<^verbatim>\<open>new Client({ transport }).exec\<close>, which settles
  to an outcome or never settles (\<open>None\<close>).
\<close>

record client_lib =
  PROCEDURE_REGISTRY :: registry
  exec :: "transport \<Rightarrow> val \<Rightarrow> outcome option"

text \<open>
  What \<^verbatim>\<open>console.log\<close> is given: a value as it is, or the text
  \<^verbatim>\<open>JSON.stringify(v, null, 2)\<close> of a value (the text itself is not computed here).
\<close>

datatype logged = Value val | JsonText val

type_synonym console = "logged list"

text \<open>
  \<^verbatim>\<open>JSON.stringify(v, null, 2)\<close>, as far as \<^verbatim>\<open>run\<close> depends on it: it returns
  \<^verbatim>\<open>undefined\<close> for \<^verbatim>\<open>undefined\<close>, throws a \<^verbatim>\<open>TypeError\<close> on a BigInt, and on an
  object either throws (a cyclic structure, a BigInt inside, a throwing \<^verbatim>\<open>toJSON\<close>) or
  returns the text. Which objects make it throw depends on the store, and is the
  parameter \<open>json_error\<close>.
\<close>

definition JSON_stringify :: "(addr \<Rightarrow> error option) \<Rightarrow> val \<Rightarrow> error + logged" where
  "JSON_stringify json_error v =
     (case v of
        Undefined \<Rightarrow> Inr (Value Undefined)
      | BigInt n \<Rightarrow> Inl (TypeError ''Do not know how to serialize a BigInt'')
      | Ref a \<Rightarrow> (case json_error a of Some e \<Rightarrow> Inl e | None \<Rightarrow> Inr (JsonText v))
      | _ \<Rightarrow> Inr (JsonText v))"

text \<open>
  \<^verbatim>\<open>run(procedureRef, options = {})\<close>. The first argument is what
  \<^verbatim>\<open>await import("@mark1russell7/client")\<close> settles to. The result is what the promise
  returned by \<^verbatim>\<open>run\<close> settles to, with the arguments \<^verbatim>\<open>run\<close> itself passed to
  \<^verbatim>\<open>console.log\<close>; \<open>None\<close> when \<^verbatim>\<open>client.exec\<close> never settles. There is no
  \<^verbatim>\<open>try\<close> in the function: a rejected \<^verbatim>\<open>await\<close> and a throwing call end it.
\<close>

definition run ::
  "error + client_lib \<Rightarrow> (addr \<Rightarrow> error option) \<Rightarrow> val \<Rightarrow> RunOptions option
     \<Rightarrow> (outcome \<times> console) option" where
  "run imported json_error procedureRef given =
     (let options = (case given of None \<Rightarrow> \<lparr>print = None, format = None\<rparr> | Some opts \<Rightarrow> opts);
          shouldPrint = (case print options of None \<Rightarrow> True | Some b \<Rightarrow> b);
          fmt = (case format options of None \<Rightarrow> Json | Some f \<Rightarrow> f)
      in case imported of
           Inl e \<Rightarrow> Some (Inl e, [])
         | Inr lib \<Rightarrow>
             let transport = sync (PROCEDURE_REGISTRY lib) (getAll (PROCEDURE_REGISTRY lib)) [] in
             (case exec lib transport procedureRef of
                None \<Rightarrow> None
              | Some (Inl e) \<Rightarrow> Some (Inl e, [])
              | Some (Inr result) \<Rightarrow>
                  if shouldPrint then
                    if fmt = Json then
                      (case JSON_stringify json_error result of
                         Inl e \<Rightarrow> Some (Inl e, [])
                       | Inr s \<Rightarrow> Some (Inr result, [s]))
                    else Some (Inr result, [Value result])
                  else Some (Inr result, [])))"

text \<open>
  What the two awaits of \<^verbatim>\<open>run\<close> settle to: the import's rejection, or what
  \<^verbatim>\<open>client.exec(procedureRef)\<close> settles to on the transport \<^verbatim>\<open>run\<close> has filled.
\<close>

definition settled :: "error + client_lib \<Rightarrow> val \<Rightarrow> outcome option" where
  "settled imported procedureRef =
     (case imported of
        Inl e \<Rightarrow> Some (Inl e)
      | Inr lib \<Rightarrow>
          exec lib (sync (PROCEDURE_REGISTRY lib) (getAll (PROCEDURE_REGISTRY lib)) []) procedureRef)"

subsection \<open>A registry and a client for the concrete instances\<close>

text \<open>
  Four procedures: \<^verbatim>\<open>a.b\<close> calls \<^verbatim>\<open>a.c\<close> with its own input and returns what that
  returns; \<^verbatim>\<open>a.c\<close> returns its input; \<^verbatim>\<open>meta\<close> has no handler; \<^verbatim>\<open>x.y.z\<close> calls a
  procedure that is not registered and rethrows.
\<close>

definition example_procedures :: "procedure list" where
  "example_procedures =
     [\<lparr>path = [''a'', ''b''],
       handler = Some (\<lambda>input context.
                   Nested [''a'', ''c''] input
                     (\<lambda>r. case r of Inl e \<Rightarrow> Throw e | Inr v \<Rightarrow> Return v))\<rparr>,
      \<lparr>path = [''a'', ''c''], handler = Some (\<lambda>input context. Return input)\<rparr>,
      \<lparr>path = [''meta''], handler = None\<rparr>,
      \<lparr>path = [''x'', ''y'', ''z''],
       handler = Some (\<lambda>input context.
                   Nested [''missing'', ''op''] input
                     (\<lambda>r. case r of Inl e \<Rightarrow> Throw e | Inr v \<Rightarrow> Return v))\<rparr>]"


text \<open>One procedure whose handler returns a BigInt.\<close>

definition bigint_procedures :: "procedure list" where
  "bigint_procedures =
     [\<lparr>path = [''count''], handler = Some (\<lambda>input context. Return (BigInt 1))\<rparr>]"

text \<open>A registry over a list of procedures: lookup finds the first entry with the path.\<close>

definition registry_of :: "procedure list \<Rightarrow> registry" where
  "registry_of ps = \<lparr>getAll = ps, get = (\<lambda>p. find (\<lambda>procedure. path procedure = p) ps)\<rparr>"

text \<open>
  A client that sends every reference, as the payload, to the first method of the
  transport (with fuel 8 and the context at address 0).
\<close>

definition example_exec :: "transport \<Rightarrow> val \<Rightarrow> outcome option" where
  "example_exec transport procedureRef =
     (case transport of
        [] \<Rightarrow> Some (Inl (Error ''Procedure not found''))
      | (m, f) # rest \<Rightarrow> fst (snd (f 8 0 procedureRef)))"

definition example_lib :: "procedure list \<Rightarrow> client_lib" where
  "example_lib ps = \<lparr>PROCEDURE_REGISTRY = registry_of ps, exec = example_exec\<rparr>"

text \<open>A store in which \<^verbatim>\<open>JSON.stringify\<close> throws on no object.\<close>

definition no_json_error :: "addr \<Rightarrow> error option" where
  "no_json_error a = None"

text \<open>The options \<^verbatim>\<open>{ print: false }\<close>.\<close>

definition quiet :: RunOptions where
  "quiet = \<lparr>print = Some False, format = None\<rparr>"

section \<open>Properties of the builder\<close>

lemma ProcBuilder_ref_cell:
  "ProcBuilder_ref b h = (Ref (length h), h @ [Object (ref_fields b)])"
  by (simp add: ProcBuilder_ref_def alloc_def set_prop_def ref_fields_def Let_def nth_append)

lemma map_of_assign: "map_of (assign k v fs) k' = (if k' = k then Some v else map_of fs k')"
  by (induction fs) auto

lemma get_prop_set_prop_same:
  "a < length h \<Longrightarrow> h ! a = Object fs \<Longrightarrow> get_prop (set_prop h a k v) (Ref a) k = v"
  by (simp add: get_prop_def set_prop_def map_of_assign)

lemma get_prop_set_prop_other:
  "a \<noteq> b \<Longrightarrow> get_prop (set_prop h a k v) (Ref b) k' = get_prop h (Ref b) k'"
  by (auto simp: get_prop_def set_prop_def split: obj.splits)

lemma deep_equal_refl: "deep_equal n h v v"
  by (cases n; cases v) simp_all

lemma deep_equal_same_fields:
  assumes "a < length h" "b < length h" "h ! a = Object fs" "h ! b = Object fs"
  shows "deep_equal n h (Ref a) (Ref b)"
proof (cases n)
  case 0
  then show ?thesis by simp
next
  case (Suc m)
  have "list_all (\<lambda>k. case (map_of fs k, map_of fs k) of
                        (Some x, Some y) \<Rightarrow> deep_equal m h x y
                      | _ \<Rightarrow> False) (map fst fs)"
    unfolding list_all_iff
  proof
    fix k assume "k \<in> set (map fst fs)"
    then obtain x where "map_of fs k = Some x"
      by (metis map_of_eq_None_iff not_Some_eq set_map)
    then show "case (map_of fs k, map_of fs k) of
                 (Some x, Some y) \<Rightarrow> deep_equal m h x y | _ \<Rightarrow> False"
      by (simp add: deep_equal_refl)
  qed
  with assms Suc show ?thesis by simp
qed

text \<open>
  Claim C8. For every string \<open>p\<close>, the empty string and strings without a dot
  among them, \<^verbatim>\<open>ref(p)\<close> returns an object whose \<^verbatim>\<open>$ref\<close> property is exactly
  \<open>p\<close> (and which has no other property); the function is total and looks at no
  character of the path.
\<close>

theorem ref_holds_path:
  "get_prop (snd (ref p h)) (fst (ref p h)) ''$ref'' = Str p
   \<and> (\<exists>a. fst (ref p h) = Ref a \<and> snd (ref p h) ! a = Object [(''$ref'', Str p)])
   \<and> get_prop (snd (ref '''' h)) (fst (ref '''' h)) ''$ref'' = Str ''''
   \<and> get_prop (snd (ref ''nodots'' h)) (fst (ref ''nodots'' h)) ''$ref'' = Str ''nodots''"
  by (simp add: ref_def alloc_def get_prop_def)

text \<open>
  Claim C4. For every path \<open>p\<close> and input \<open>i\<close>, the snapshot
  \<^verbatim>\<open>proc(p).input(i).ref\<close> has \<^verbatim>\<open>$proc\<close> equal to \<open>p\<close> and \<^verbatim>\<open>input\<close> equal to \<open>i\<close>
  as values, so the same reference when \<open>p\<close> or \<open>i\<close> is an object; it has no
  \<^verbatim>\<open>$name\<close> and no \<^verbatim>\<open>$when\<close> property: its own properties are exactly those two.
  Nothing that was in the store before is changed, so \<open>p\<close> and \<open>i\<close> still refer to
  what they referred to.
\<close>

theorem snapshot_proc_input:
  "case proc p h of (b0, h0) \<Rightarrow>
     (case ProcBuilder_ref (ProcBuilder_input b0 i) h0 of (s, h1) \<Rightarrow>
        get_prop h1 s ''$proc'' = p \<and> get_prop h1 s ''input'' = i
        \<and> \<not> has_prop h1 s ''$name'' \<and> \<not> has_prop h1 s ''$when''
        \<and> (\<exists>a. s = Ref a \<and> h1 ! a = Object [(''$proc'', p), (''input'', i)])
        \<and> take (length h) h1 = h)"
  by (simp add: proc_def alloc_def ProcBuilder_input_def ProcBuilder_ref_cell ref_fields_def
        truthy_def get_prop_def has_prop_def nth_append)

text \<open>
  Claim C5, as the code has it. For every \<^emph>\<open>non-empty\<close> string \<open>n\<close> and every path
  \<open>p\<close>, \<^verbatim>\<open>proc(p).name(n).ref.$name\<close> is \<open>n\<close>; and after a second call
  \<^verbatim>\<open>.name(m).name(n)\<close>, on a builder in any state, \<^verbatim>\<open>$name\<close> is the argument \<open>n\<close>
  of the last call.
\<close>

theorem name_sets_dollar_name:
  "n \<noteq> [] \<Longrightarrow>
     ref_prop (ProcBuilder_name (fst (proc p h)) n) (snd (proc p h)) ''$name'' = Str n
     \<and> ref_prop (ProcBuilder_name (ProcBuilder_name b m) n) h' ''$name'' = Str n
     \<and> ref_prop (ProcBuilder_name b n) h' ''$name'' = Str n"
  by (simp add: ref_prop_def ProcBuilder_ref_cell ref_fields_def ProcBuilder_name_def
        truthy_def to_val_def get_prop_def nth_append)

theorem name_sets_dollar_name_witness:
  "''changes'' \<noteq> []
   \<and> ref_prop (ProcBuilder_name (fst (proc (Ref 0) example_heap)) ''changes'')
        (snd (proc (Ref 0) example_heap)) ''$name'' = Str ''changes''
   \<and> ref_prop (ProcBuilder_name (ProcBuilder_name (fst (proc (Ref 0) example_heap)) ''old'')
        ''changes'') (snd (proc (Ref 0) example_heap)) ''$name'' = Str ''changes''"
  using name_sets_dollar_name [of "''changes''" "Ref 0" example_heap
      "fst (proc (Ref 0) example_heap)" "''old''" "snd (proc (Ref 0) example_heap)"]
  by simp

text \<open>
  The claim as the specification states it, for every string, fails at the empty string:
  \<^verbatim>\<open>proc(p).name("").ref.$name\<close> is \<^verbatim>\<open>undefined\<close>, not the empty string, and after
  \<^verbatim>\<open>.name("changes").name("")\<close> the snapshot has no \<^verbatim>\<open>$name\<close> either.
\<close>

theorem name_empty_counterexample:
  "ref_prop (ProcBuilder_name (fst (proc (Ref 0) example_heap)) '''')
     (snd (proc (Ref 0) example_heap)) ''$name'' \<noteq> Str ''''
   \<and> ref_prop (ProcBuilder_name (ProcBuilder_name (fst (proc (Ref 0) example_heap)) ''changes'')
        '''') (snd (proc (Ref 0) example_heap)) ''$name'' = Undefined"
  by (simp add: ref_prop_def ProcBuilder_ref_cell ref_fields_def ProcBuilder_name_def
        truthy_def proc_def alloc_def get_prop_def nth_append)

text \<open>
  Claim C6. For every builder state and store, reading \<^verbatim>\<open>.ref\<close> twice in a row yields
  two different objects that are deep-equal (to every depth); each can be assigned to
  (the assigned property reads back) and an assignment to one, or any other change of
  its own properties, leaves the other as it was. What the two snapshots refer to
  (the path array, the input) is shared, as claim C4 requires.
\<close>

theorem ref_twice:
  "case ProcBuilder_ref b h of (s1, h1) \<Rightarrow>
     (case ProcBuilder_ref b h1 of (s2, h2) \<Rightarrow>
        s1 \<noteq> s2
        \<and> (\<forall>n. deep_equal n h2 s1 s2)
        \<and> (\<exists>a1 a2. s1 = Ref a1 \<and> s2 = Ref a2 \<and> a1 \<noteq> a2
              \<and> (\<forall>k v k'. get_prop (set_prop h2 a1 k v) s1 k = v
                          \<and> get_prop (set_prop h2 a1 k v) s2 k' = get_prop h2 s2 k'
                          \<and> get_prop (set_prop h2 a2 k v) s2 k = v
                          \<and> get_prop (set_prop h2 a2 k v) s1 k' = get_prop h2 s1 k')
              \<and> (\<forall>ob. h2[a1 := ob] ! a2 = h2 ! a2 \<and> h2[a2 := ob] ! a1 = h2 ! a1)))"
proof -
  let ?a1 = "length h" and ?a2 = "Suc (length h)"
  let ?h2 = "h @ [Object (ref_fields b), Object (ref_fields b)]"
  have r1: "ProcBuilder_ref b h = (Ref ?a1, h @ [Object (ref_fields b)])"
    by (rule ProcBuilder_ref_cell)
  have r2: "ProcBuilder_ref b (h @ [Object (ref_fields b)]) = (Ref ?a2, ?h2)"
    by (simp add: ProcBuilder_ref_cell)
  have c1: "?h2 ! ?a1 = Object (ref_fields b)" and c2: "?h2 ! ?a2 = Object (ref_fields b)"
    by (simp_all add: nth_append)
  have l: "?a1 < length ?h2" "?a2 < length ?h2" by simp_all
  have deep: "\<forall>n. deep_equal n ?h2 (Ref ?a1) (Ref ?a2)"
    using deep_equal_same_fields [OF l c1 c2] by blast
  have w1: "\<forall>k v k'. get_prop (set_prop ?h2 ?a1 k v) (Ref ?a1) k = v
                    \<and> get_prop (set_prop ?h2 ?a1 k v) (Ref ?a2) k' = get_prop ?h2 (Ref ?a2) k'
                    \<and> get_prop (set_prop ?h2 ?a2 k v) (Ref ?a2) k = v
                    \<and> get_prop (set_prop ?h2 ?a2 k v) (Ref ?a1) k' = get_prop ?h2 (Ref ?a1) k'"
    using get_prop_set_prop_same [OF l(1) c1] get_prop_set_prop_same [OF l(2) c2]
    by (simp add: get_prop_set_prop_other)
  have w2: "\<forall>ob. ?h2[?a1 := ob] ! ?a2 = ?h2 ! ?a2 \<and> ?h2[?a2 := ob] ! ?a1 = ?h2 ! ?a1"
    by (simp add: nth_append list_update_append)
  show ?thesis
    unfolding r1 r2 prod.case using deep w1 w2 by simp
qed

text \<open>
  Claim C10. \<^verbatim>\<open>.name("")\<close> and \<^verbatim>\<open>.when("")\<close> behave like never calling the method:
  on a builder in any state and in any store, the snapshot after \<^verbatim>\<open>.name("")\<close> has no
  \<^verbatim>\<open>$name\<close> property and is, store included, the snapshot of the same builder with
  \<^verbatim>\<open>_name\<close> still \<^verbatim>\<open>undefined\<close>; likewise for \<^verbatim>\<open>.when("")\<close> and \<^verbatim>\<open>$when\<close>. In
  particular \<^verbatim>\<open>proc(p).name("").ref\<close> and \<^verbatim>\<open>proc(p).when("").ref\<close> are what
  \<^verbatim>\<open>proc(p).ref\<close> is.
\<close>

theorem empty_name_when_is_unset:
  "\<not> ref_has (ProcBuilder_name b '''') h ''$name''
   \<and> \<not> ref_has (ProcBuilder_when b '''') h ''$when''
   \<and> ProcBuilder_ref (ProcBuilder_name b '''') h = ProcBuilder_ref (b\<lparr>v_name := None\<rparr>) h
   \<and> ProcBuilder_ref (ProcBuilder_when b '''') h = ProcBuilder_ref (b\<lparr>v_when := None\<rparr>) h
   \<and> ProcBuilder_ref (ProcBuilder_name (fst (proc p h)) '''') h' = ProcBuilder_ref (fst (proc p h)) h'
   \<and> ProcBuilder_ref (ProcBuilder_when (fst (proc p h)) '''') h' = ProcBuilder_ref (fst (proc p h)) h'"
  by (simp add: ref_has_def ProcBuilder_ref_cell ref_fields_def ProcBuilder_name_def
        ProcBuilder_when_def truthy_def proc_def alloc_def has_prop_def nth_append)

section \<open>Properties of the adapter\<close>

lemmas example_defs = example_procedures_def registry_of_def example_exec_def example_lib_def
  method_handler_def method_of_def register_def no_json_error_def bigint_procedures_def quiet_def

lemma sync_eq:
  "sync reg ps t =
     t @ map (\<lambda>p. (method_of p, method_handler reg p)) (filter (\<lambda>p. handler p \<noteq> None) ps)"
  by (induction ps arbitrary: t) (auto simp: register_def split: option.splits)







text \<open>
  Claim C1. The transport \<^verbatim>\<open>run\<close> fills from the registry holds, in the registry's
  order, one method for each procedure that carries a handler, namely the method
  \<open>method_of\<close> of the procedure with the function \<open>method_handler\<close> for it, and nothing
  else: every procedure with a handler has its method installed; for a path
  \<open>first # rest\<close> the method's service is \<open>first\<close> and its operation is \<open>rest\<close> joined
  by \<^verbatim>\<open>"."\<close>; the procedures without a handler add nothing (the transport is the same
  with them left out of the registry's list, and is empty when no procedure has a
  handler). This transport, filled from the imported registry, is the one \<^verbatim>\<open>run\<close>
  hands to the client: \<^verbatim>\<open>run\<close> is the same with a client that is given no other.
\<close>

theorem sync_installs_handlers:
  "sync reg (getAll reg) []
     = map (\<lambda>p. (method_of p, method_handler reg p)) (filter (\<lambda>p. handler p \<noteq> None) (getAll reg))
   \<and> (\<forall>procedure \<in> set (getAll reg). handler procedure \<noteq> None \<longrightarrow>
         (method_of procedure, method_handler reg procedure) \<in> set (sync reg (getAll reg) []))
   \<and> (\<forall>first rest. path procedure = first # rest \<longrightarrow>
         method_of procedure = \<lparr>service = Some first, operation = join ''.'' rest\<rparr>)
   \<and> sync reg (getAll reg) [] = sync reg (filter (\<lambda>p. handler p \<noteq> None) (getAll reg)) []
   \<and> ((\<forall>procedure \<in> set (getAll reg). handler procedure = None) \<longrightarrow> sync reg (getAll reg) [] = [])
   \<and> run (Inr lib) json_error procedureRef given
       = run (Inr (lib\<lparr>exec := \<lambda>transport. exec lib
                 (sync (PROCEDURE_REGISTRY lib) (getAll (PROCEDURE_REGISTRY lib)) [])\<rparr>))
           json_error procedureRef given"
proof -
  have "run (Inr lib) json_error procedureRef given
       = run (Inr (lib\<lparr>exec := \<lambda>transport. exec lib
                 (sync (PROCEDURE_REGISTRY lib) (getAll (PROCEDURE_REGISTRY lib)) [])\<rparr>))
           json_error procedureRef given"
    by (simp add: run_def Let_def)
  then show ?thesis
    by (auto simp: sync_eq method_of_def filter_empty_conv)
qed

theorem sync_installs_handlers_witness:
  "example_procedures ! 3 \<in> set (getAll (registry_of example_procedures))
   \<and> handler (example_procedures ! 3) \<noteq> None
   \<and> path (example_procedures ! 3) = [''x'', ''y'', ''z'']
   \<and> (\<lparr>service = Some ''x'', operation = ''y.z''\<rparr>,
        method_handler (registry_of example_procedures) (example_procedures ! 3))
       \<in> set (sync (registry_of example_procedures) (getAll (registry_of example_procedures)) [])
   \<and> map fst (sync (registry_of example_procedures) (getAll (registry_of example_procedures)) [])
       = [\<lparr>service = Some ''a'', operation = ''b''\<rparr>,
          \<lparr>service = Some ''a'', operation = ''c''\<rparr>,
          \<lparr>service = Some ''x'', operation = ''y.z''\<rparr>]
   \<and> map handler (getAll (registry_of [example_procedures ! 2])) = [None]
   \<and> sync (registry_of [example_procedures ! 2]) (getAll (registry_of [example_procedures ! 2])) [] = []"
proof -
  let ?reg = "registry_of example_procedures"
  let ?p = "example_procedures ! 3"
  have a: "?p \<in> set (getAll ?reg)" and b: "handler ?p \<noteq> None"
    and c: "path ?p = [''x'', ''y'', ''z'']"
    by (simp_all add: example_procedures_def registry_of_def)
  have d: "\<forall>procedure \<in> set (getAll (registry_of [example_procedures ! 2])). handler procedure = None"
    by (simp add: example_procedures_def registry_of_def)
  have m: "map fst (sync ?reg (getAll ?reg) [])
       = [\<lparr>service = Some ''a'', operation = ''b''\<rparr>,
          \<lparr>service = Some ''a'', operation = ''c''\<rparr>,
          \<lparr>service = Some ''x'', operation = ''y.z''\<rparr>]"
    by (simp add: example_procedures_def registry_of_def method_of_def register_def)
  note inst = sync_installs_handlers [of ?reg ?p]
  from inst a b have "(method_of ?p, method_handler ?reg ?p) \<in> set (sync ?reg (getAll ?reg) [])"
    by blast
  moreover from inst c
  have "method_of ?p = \<lparr>service = Some ''x'', operation = join ''.'' [''y'', ''z'']\<rparr>"
    by blast
  ultimately have e: "(\<lparr>service = Some ''x'', operation = ''y.z''\<rparr>, method_handler ?reg ?p)
       \<in> set (sync ?reg (getAll ?reg) [])"
    by simp
  from sync_installs_handlers [of "registry_of [example_procedures ! 2]"] d
  have f: "sync (registry_of [example_procedures ! 2])
             (getAll (registry_of [example_procedures ! 2])) [] = []"
    by blast
  have g: "map handler (getAll (registry_of [example_procedures ! 2])) = [None]"
    by (simp add: example_procedures_def registry_of_def)
  from a b c e f g m show ?thesis by blast
qed

text \<open>
  Claim C2. For every path \<open>p\<close> and input \<open>i\<close> passed to \<^verbatim>\<open>context.client.call\<close>: if
  the registry has no entry at \<open>p\<close>, or the entry has no handler, the call applies no
  handler and rejects with the error \<^verbatim>\<open>Procedure not found: \<close> followed by the segments
  of \<open>p\<close> joined by \<^verbatim>\<open>"."\<close>, and that rejection is what the calling handler goes on
  with; otherwise the entry's handler is applied to \<open>i\<close> and to the caller's
  own context, and the call settles to what that handler's run settles to.
\<close>

theorem nested_call_resolution:
  "((get reg p = None \<or> (\<exists>target. get reg p = Some target \<and> handler target = None)) \<longrightarrow>
       call n reg context p i
         = ([], Some (Inl (Error (''Procedure not found: '' @ join ''.'' p))), context)
       \<and> run_handler (Suc n) reg context (Nested p i k)
         = run_handler n reg context (k (Inl (Error (''Procedure not found: '' @ join ''.'' p)))))
   \<and> (\<forall>target h. get reg p = Some target \<and> handler target = Some h \<longrightarrow>
         fst (call n reg context p i)
           = \<lparr>inv_procedure = target, inv_input = i, inv_context = context\<rparr>
               # fst (run_handler n reg context (h i context))
         \<and> snd (call n reg context p i) = snd (run_handler n reg context (h i context)))"
  by (auto simp: case_prod_beta)

theorem nested_call_resolution_witness:
  "get (registry_of example_procedures) [''missing'', ''op''] = None
   \<and> call 2 (registry_of example_procedures)
        \<lparr>ident = 7, metadata = [], call_context.path = [''x'', ''y'', ''z'']\<rparr>
        [''missing'', ''op''] (Num 1)
       = ([], Some (Inl (Error ''Procedure not found: missing.op'')),
          \<lparr>ident = 7, metadata = [], call_context.path = [''x'', ''y'', ''z'']\<rparr>)
   \<and> get (registry_of example_procedures) [''meta''] = Some (example_procedures ! 2)
   \<and> handler (example_procedures ! 2) = None
   \<and> call 2 (registry_of example_procedures)
        \<lparr>ident = 7, metadata = [], call_context.path = [''x'', ''y'', ''z'']\<rparr> [''meta''] (Num 1)
       = ([], Some (Inl (Error ''Procedure not found: meta'')),
          \<lparr>ident = 7, metadata = [], call_context.path = [''x'', ''y'', ''z'']\<rparr>)
   \<and> get (registry_of example_procedures) [''a'', ''c''] = Some (example_procedures ! 1)
   \<and> fst (call 2 (registry_of example_procedures)
        \<lparr>ident = 7, metadata = [], call_context.path = [''a'', ''b'']\<rparr> [''a'', ''c''] (Num 1))
       = [\<lparr>inv_procedure = example_procedures ! 1, inv_input = Num 1,
           inv_context = \<lparr>ident = 7, metadata = [], call_context.path = [''a'', ''b'']\<rparr>\<rparr>]
   \<and> snd (call 2 (registry_of example_procedures)
        \<lparr>ident = 7, metadata = [], call_context.path = [''a'', ''b'']\<rparr> [''a'', ''c''] (Num 1))
       = (Some (Inr (Num 1)), \<lparr>ident = 7, metadata = [], call_context.path = [''a'', ''b'']\<rparr>)"
proof -
  let ?reg = "registry_of example_procedures"
  let ?cx = "\<lparr>ident = 7, metadata = [], call_context.path = [''x'', ''y'', ''z'']\<rparr>"
  let ?ca = "\<lparr>ident = 7, metadata = [], call_context.path = [''a'', ''b'']\<rparr>"
  have g1: "get ?reg [''missing'', ''op''] = None"
    by (simp add: example_procedures_def registry_of_def)
  have g2: "get ?reg [''meta''] = Some (example_procedures ! 2)"
    and h2: "handler (example_procedures ! 2) = None"
    by (simp_all add: example_procedures_def registry_of_def)
  have g3: "get ?reg [''a'', ''c''] = Some (example_procedures ! 1)"
    and h3: "handler (example_procedures ! 1) = Some (\<lambda>input context. Return input)"
    by (simp_all add: example_procedures_def registry_of_def)
  from nested_call_resolution [of ?reg "[''missing'', ''op'']" 2 ?cx "Num 1"] g1
  have c1: "call 2 ?reg ?cx [''missing'', ''op''] (Num 1)
      = ([], Some (Inl (Error (''Procedure not found: '' @ join ''.'' [''missing'', ''op'']))), ?cx)"
    by blast
  from nested_call_resolution [of ?reg "[''meta'']" 2 ?cx "Num 1"] g2 h2
  have c2: "call 2 ?reg ?cx [''meta''] (Num 1)
      = ([], Some (Inl (Error (''Procedure not found: '' @ join ''.'' [''meta'']))), ?cx)"
    by blast
  from nested_call_resolution [of ?reg "[''a'', ''c'']" 2 ?ca "Num 1"] g3 h3
  have c3: "fst (call 2 ?reg ?ca [''a'', ''c''] (Num 1))
       = \<lparr>inv_procedure = example_procedures ! 1, inv_input = Num 1, inv_context = ?ca\<rparr>
           # fst (run_handler 2 ?reg ?ca (Return (Num 1)))"
    and c4: "snd (call 2 ?reg ?ca [''a'', ''c''] (Num 1))
       = snd (run_handler 2 ?reg ?ca (Return (Num 1)))"
    by blast+
  have r: "run_handler 2 ?reg ?ca (Return (Num 1)) = ([], Some (Inr (Num 1)), ?ca)"
    by (simp add: numeral_2_eq_2)
  from g1 g2 h2 g3 c1 c2 c3 c4 r show ?thesis
    by (simp del: call.simps)
qed




section \<open>Properties of the driver\<close>

text \<open>
  Claim C3. For every procedure reference and all options: when \<^verbatim>\<open>client.exec\<close> rejects
  (an unresolved reference, an unknown procedure, a failure inside a handler: whatever
  the error is), \<^verbatim>\<open>run\<close> rejects with the very same error and passes nothing to
  \<^verbatim>\<open>console.log\<close>.
\<close>

theorem run_propagates_failure:
  "exec lib (sync (PROCEDURE_REGISTRY lib) (getAll (PROCEDURE_REGISTRY lib)) []) procedureRef
     = Some (Inl e)
   \<Longrightarrow> run (Inr lib) json_error procedureRef given = Some (Inl e, [])"
  by (simp add: run_def Let_def)

theorem run_propagates_failure_witness:
  "exec (example_lib (drop 3 example_procedures))
     (sync (PROCEDURE_REGISTRY (example_lib (drop 3 example_procedures)))
        (getAll (PROCEDURE_REGISTRY (example_lib (drop 3 example_procedures)))) []) (Ref 0)
     = Some (Inl (Error ''Procedure not found: missing.op''))
   \<and> run (Inr (example_lib (drop 3 example_procedures))) no_json_error (Ref 0) None
     = Some (Inl (Error ''Procedure not found: missing.op''), [])"
proof -
  have "exec (example_lib (drop 3 example_procedures))
     (sync (PROCEDURE_REGISTRY (example_lib (drop 3 example_procedures)))
        (getAll (PROCEDURE_REGISTRY (example_lib (drop 3 example_procedures)))) []) (Ref 0)
     = Some (Inl (Error ''Procedure not found: missing.op''))"
    by (simp add: example_defs eval_nat_numeral Let_def)
  with run_propagates_failure [OF this, of no_json_error None] show ?thesis by simp
qed

text \<open>
  Claim C7, as the code has it. For every procedure reference: provided
  \<^verbatim>\<open>JSON.stringify\<close> does not throw on the value the execution resolves to, the promise
  returned by \<^verbatim>\<open>run\<close> settles to what the execution settled to, the same for all
  combinations of \<^verbatim>\<open>print\<close> and \<^verbatim>\<open>format\<close> (given or left out); with \<^verbatim>\<open>print\<close> false,
  whatever the format and whatever \<^verbatim>\<open>JSON.stringify\<close> would do, \<^verbatim>\<open>run\<close> settles to what
  the execution settled to and passes nothing to \<^verbatim>\<open>console.log\<close>; and with the format
  \<^verbatim>\<open>text\<close> the returned value is that of the execution whether \<^verbatim>\<open>print\<close> is on or not.
\<close>

theorem print_format_presentation_only:
  "((\<forall>result. settled imported procedureRef = Some (Inr result) \<longrightarrow>
        (\<exists>s. JSON_stringify json_error result = Inr s)) \<longrightarrow>
      map_option fst (run imported json_error procedureRef given) = settled imported procedureRef
      \<and> map_option fst (run imported json_error procedureRef given)
          = map_option fst (run imported json_error procedureRef given'))
   \<and> run imported json_error procedureRef (Some \<lparr>print = Some False, format = f\<rparr>)
       = map_option (\<lambda>r. (r, [])) (settled imported procedureRef)
   \<and> map_option fst (run imported json_error procedureRef (Some \<lparr>print = b, format = Some Text\<rparr>))
       = settled imported procedureRef"
proof -
  have q: "run imported json_error procedureRef (Some \<lparr>print = Some False, format = f\<rparr>)
       = map_option (\<lambda>r. (r, [])) (settled imported procedureRef)"
    by (simp add: run_def settled_def Let_def split: sum.splits option.splits)
  have t: "map_option fst (run imported json_error procedureRef (Some \<lparr>print = b, format = Some Text\<rparr>))
       = settled imported procedureRef"
    by (simp add: run_def settled_def Let_def split: sum.splits option.splits)
  have any: "map_option fst (run imported json_error procedureRef g) = settled imported procedureRef"
    if ok: "\<forall>result. settled imported procedureRef = Some (Inr result) \<longrightarrow>
        (\<exists>s. JSON_stringify json_error result = Inr s)" for g
  proof (cases "settled imported procedureRef")
    case None
    then show ?thesis
      by (auto simp: run_def settled_def Let_def split: sum.splits option.splits)
  next
    case (Some r)
    show ?thesis
    proof (cases r)
      case (Inl e)
      with Some show ?thesis
        by (auto simp: run_def settled_def Let_def split: sum.splits option.splits)
    next
      case (Inr result)
      with Some ok obtain s where "JSON_stringify json_error result = Inr s" by blast
      with Some Inr show ?thesis
        by (auto simp: run_def settled_def Let_def split: sum.splits option.splits)
    qed
  qed
  from q t any show ?thesis by simp
qed

theorem print_format_presentation_only_witness:
  "settled (Inr (example_lib example_procedures)) (Ref 0) = Some (Inr (Ref 0))
   \<and> JSON_stringify no_json_error (Ref 0) = Inr (JsonText (Ref 0))
   \<and> map_option fst (run (Inr (example_lib example_procedures)) no_json_error (Ref 0) None)
       = Some (Inr (Ref 0))
   \<and> map_option fst (run (Inr (example_lib example_procedures)) no_json_error (Ref 0) None)
       = map_option fst (run (Inr (example_lib example_procedures)) no_json_error (Ref 0) (Some quiet))"
proof -
  have s: "settled (Inr (example_lib example_procedures)) (Ref 0) = Some (Inr (Ref 0))"
    by (simp add: settled_def example_defs eval_nat_numeral Let_def)
  have j: "JSON_stringify no_json_error (Ref 0) = Inr (JsonText (Ref 0))"
    by (simp add: JSON_stringify_def no_json_error_def)
  from s j have ok: "\<forall>result. settled (Inr (example_lib example_procedures)) (Ref 0) = Some (Inr result) \<longrightarrow>
        (\<exists>s. JSON_stringify no_json_error result = Inr s)"
    by simp
  from print_format_presentation_only
         [of "Inr (example_lib example_procedures)" "Ref 0" no_json_error None "Some quiet"] ok
  have A: "map_option fst (run (Inr (example_lib example_procedures)) no_json_error (Ref 0) None)
       = settled (Inr (example_lib example_procedures)) (Ref 0)"
    and B: "map_option fst (run (Inr (example_lib example_procedures)) no_json_error (Ref 0) None)
       = map_option fst (run (Inr (example_lib example_procedures)) no_json_error (Ref 0) (Some quiet))"
    by blast+
  from A s have "map_option fst (run (Inr (example_lib example_procedures)) no_json_error (Ref 0) None)
       = Some (Inr (Ref 0))"
    by (rule trans)
  with s j B show ?thesis by blast
qed

text \<open>
  The claim as the specification states it fails when the execution resolves to a value
  \<^verbatim>\<open>JSON.stringify\<close> throws on. With a handler that returns the BigInt \<^verbatim>\<open>1n\<close>,
  \<^verbatim>\<open>run(ref)\<close> rejects with the \<^verbatim>\<open>TypeError\<close> of \<^verbatim>\<open>JSON.stringify\<close>, and
  \<^verbatim>\<open>run(ref, { print: false })\<close> returns \<^verbatim>\<open>1n\<close>.
\<close>

theorem print_changes_result_counterexample:
  "map_option fst (run (Inr (example_lib bigint_procedures)) no_json_error (Ref 0) None)
     = Some (Inl (TypeError ''Do not know how to serialize a BigInt''))
   \<and> map_option fst (run (Inr (example_lib bigint_procedures)) no_json_error (Ref 0) (Some quiet))
     = Some (Inr (BigInt 1))
   \<and> map_option fst (run (Inr (example_lib bigint_procedures)) no_json_error (Ref 0) None)
     \<noteq> map_option fst (run (Inr (example_lib bigint_procedures)) no_json_error (Ref 0) (Some quiet))"
  by (simp add: run_def example_defs JSON_stringify_def eval_nat_numeral Let_def)

end
